theory Spec2Isabelle
  imports Complex_Main "HOL-Library.Word" "HOL-Library.AList"
begin

section \<open>The Hawaiian font scanner (font-scanner.js) and its scan server\<close>

text \<open>
  A shallow embedding of the scanner class \<open>HawaiianFontScanner\<close> and of the scan
  endpoints built on it. Everything the JavaScript obtains from outside (the font
  directory, the headless browser, the clock, the rate limiters in front of a route) is
  a parameter of the model: a value that says what each external call returns or which
  message it throws with. A thrown exception is the \<open>Inl\<close> of a sum, carrying
  \<open>error.message\<close>.
\<close>

subsection \<open>Byte buffers and the difference score\<close>

type_synonym byte = "8 word"
type_synonym buffer = "byte list"

text \<open>
  \<open>buf[i]\<close> on a Node buffer: the byte, or \<open>undefined\<close> (here \<open>None\<close>) when
  \<open>i\<close> is not an index of the buffer.
\<close>

definition buf_get :: "buffer \<Rightarrow> nat \<Rightarrow> byte option" where
  "buf_get buf i = (if i < length buf then Some (buf ! i) else None)"

text \<open>
  The loop of \<open>compareImages\<close>:
  \<^verbatim>\<open>for (let i = 0; i < img1Buffer.length; i++) {
    if (img1Buffer[i] !== img2Buffer[i]) { differences++; } }\<close>
  with the loop variable and the counter as arguments.
\<close>

function count_differences :: "buffer \<Rightarrow> buffer \<Rightarrow> nat \<Rightarrow> int \<Rightarrow> int" where
  "count_differences img1Buffer img2Buffer i differences =
     (if i < length img1Buffer
      then count_differences img1Buffer img2Buffer (i + 1)
             (if buf_get img1Buffer i \<noteq> buf_get img2Buffer i
              then differences + 1 else differences)
      else differences)"
  by pat_completeness auto
termination
  by (relation "measure (\<lambda>(img1Buffer, img2Buffer, i, differences). length img1Buffer - i)") auto

declare count_differences.simps [simp del]

definition compareImages :: "buffer \<Rightarrow> buffer \<Rightarrow> int" where
  "compareImages img1Buffer img2Buffer =
     (if length img1Buffer \<noteq> length img2Buffer
      then \<bar>int (length img1Buffer) - int (length img2Buffer)\<bar>
      else count_differences img1Buffer img2Buffer 0 0)"

subsection \<open>JavaScript values\<close>

text \<open>
  Numbers are integers (\<open>int\<close>), as the source's doubles are below \<open>2^53\<close> in
  magnitude, where their sums are exact; \<open>null\<close> and \<open>undefined\<close> are \<open>None\<close>. A value is
  falsy when it is \<open>null\<close>, \<open>undefined\<close>, \<open>0\<close> or the empty string. \<open>a || b\<close> is
  \<open>a\<close> when \<open>a\<close> is truthy and \<open>b\<close> otherwise.
\<close>

definition truthy_number :: "int option \<Rightarrow> bool" where
  "truthy_number v = (case v of None \<Rightarrow> False | Some n \<Rightarrow> n \<noteq> 0)"

definition truthy_string :: "string option \<Rightarrow> bool" where
  "truthy_string v = (case v of None \<Rightarrow> False | Some s \<Rightarrow> s \<noteq> [])"

definition or_number :: "int option \<Rightarrow> int \<Rightarrow> int" where
  "or_number v d = (case v of None \<Rightarrow> d | Some n \<Rightarrow> if n \<noteq> 0 then n else d)"

text \<open>
  \<open>Array.prototype.slice(start, end)\<close> on integer arguments: a negative index counts
  from the end, both are clamped to the array, \<open>end\<close> left out is the length.
\<close>

definition slice_index :: "nat \<Rightarrow> int \<Rightarrow> nat" where
  "slice_index len k = (if k < 0 then nat (max (int len + k) 0) else nat (min k (int len)))"

definition js_slice :: "'a list \<Rightarrow> int \<Rightarrow> int option \<Rightarrow> 'a list" where
  "js_slice xs start end_opt =
     (let k = slice_index (length xs) start;
          final = (case end_opt of None \<Rightarrow> length xs | Some e \<Rightarrow> slice_index (length xs) e)
      in take (final - k) (drop k xs))"

text \<open>A number inside a template literal: its decimal digits, with a sign when negative.\<close>

function digits :: "nat \<Rightarrow> string" where
  "digits n =
     (if n < 10 then [''0123456789'' ! n]
      else digits (n div 10) @ [''0123456789'' ! (n mod 10)])"
  by pat_completeness auto
termination
  by (relation "measure (\<lambda>n. n)") auto

declare digits.simps [simp del]

definition number_text :: "int \<Rightarrow> string" where
  "number_text n = (if n < 0 then CHR ''-'' # digits (nat (- n)) else digits (nat n))"

subsection \<open>The scanner object\<close>

type_synonym codepoint = nat

record scanner =
  batchSize :: int
  pixelThreshold :: int

text \<open>
  The constructor: \<open>options.batchSize || 50\<close> and \<open>options.pixelThreshold || 50\<close>. The
  API key only changes the request's URL and is left out.
\<close>

definition new_scanner :: "int option \<Rightarrow> int option \<Rightarrow> scanner" where
  "new_scanner opt_batchSize opt_pixelThreshold =
     \<lparr>batchSize = or_number opt_batchSize 50,
      pixelThreshold = or_number opt_pixelThreshold 50\<rparr>"

text \<open>
  \<open>testCharacters.lowercase\<close> and \<open>testCharacters.uppercase\<close>: the macron vowels, by
  code point (U+0101, U+0113, U+012B, U+014D, U+016B and U+0100, U+0112, U+012A, U+014C,
  U+016A).
\<close>

definition lowercase :: "codepoint list" where
  "lowercase = [257, 275, 299, 333, 363]"

definition uppercase :: "codepoint list" where
  "uppercase = [256, 274, 298, 332, 362]"

subsection \<open>The rendering engine as a parameter\<close>

text \<open>
  What one page of the headless browser does when the scanner calls it: \<open>None\<close> or
  \<open>Inr\<close> when the call returns, the message of the exception when it throws.
  \<open>query_selector\<close> is \<open>page.$\<close>: whether an element matched (\<open>null\<close> otherwise);
  \<open>element_screenshot\<close> is \<open>screenshot()\<close> of the element a selector matched;
  \<open>evaluate_append\<close> and \<open>evaluate_width\<close> are the two \<open>page.evaluate\<close> calls the
  diacritical test makes for a character, the second returning \<open>span.offsetWidth\<close>.
\<close>

record page_behaviour =
  setContent_fault :: "string option"
  waitForTimeout_fault :: "string option"
  query_selector :: "string \<Rightarrow> string + bool"
  element_screenshot :: "string \<Rightarrow> string + buffer"
  evaluate_append :: "codepoint \<Rightarrow> string option"
  evaluate_width :: "codepoint \<Rightarrow> string + int"
  close_fault :: "string option"

text \<open>
  The browser: what the \<open>i\<close>-th \<open>browser.newPage()\<close> of a batch does, and whether
  \<open>browser.close()\<close> throws.
\<close>

record browser =
  newPage :: "nat \<Rightarrow> string + page_behaviour"
  browser_close_fault :: "string option"

text \<open>The calls made on the browser and on a page, in the order they are made.\<close>

datatype page_call =
    NewPage
  | SetContent
  | WaitForTimeout
  | Query string
  | Screenshot string
  | EvaluateAppend codepoint
  | EvaluateWidth codepoint
  | Close

text \<open>
  An action that has run: what it returned or threw, and the calls it made. The
  combinators are the control flow of the source: sequencing (an exception skips the
  rest), \<open>try/catch\<close> and \<open>try/finally\<close>.
\<close>

type_synonym 'a act = "(string + 'a) \<times> page_call list"

definition returnA :: "'a \<Rightarrow> 'a act" where
  "returnA x = (Inr x, [])"

definition throwA :: "string \<Rightarrow> 'a act" where
  "throwA e = (Inl e, [])"

definition call :: "page_call \<Rightarrow> string + 'a \<Rightarrow> 'a act" where
  "call c outcome = (outcome, [c])"

definition unit_outcome :: "string option \<Rightarrow> string + unit" where
  "unit_outcome fault = (case fault of None \<Rightarrow> Inr () | Some e \<Rightarrow> Inl e)"

definition bindA :: "'a act \<Rightarrow> ('a \<Rightarrow> 'b act) \<Rightarrow> 'b act" where
  "bindA m f =
     (case m of
        (Inl e, calls) \<Rightarrow> (Inl e, calls)
      | (Inr x, calls) \<Rightarrow> (case f x of (r, calls') \<Rightarrow> (r, calls @ calls')))"

definition catchA :: "'a act \<Rightarrow> (string \<Rightarrow> 'a act) \<Rightarrow> 'a act" where
  "catchA m handler =
     (case m of
        (Inl e, calls) \<Rightarrow> (case handler e of (r, calls') \<Rightarrow> (r, calls @ calls'))
      | (Inr x, calls) \<Rightarrow> (Inr x, calls))"

text \<open>
  \<open>try { return m } finally { fin }\<close>: \<open>fin\<close> runs whatever \<open>m\<close> did; when \<open>fin\<close>
  throws, its exception replaces the outcome of \<open>m\<close>.
\<close>

definition finallyA :: "'a act \<Rightarrow> unit act \<Rightarrow> 'a act" where
  "finallyA m fin =
     (case m of (r, calls) \<Rightarrow>
        (case fin of
           (Inl e, calls') \<Rightarrow> (Inl e, calls @ calls')
         | (Inr u, calls') \<Rightarrow> (r, calls @ calls')))"

subsection \<open>The diacritical character test\<close>

record diacritical_summary =
  individual :: "(codepoint \<times> bool) list"
  supportedCount :: nat
  totalCount :: nat
  allSupported :: bool
  percentageSupported :: rat

definition allCharacters :: "codepoint list" where
  "allCharacters = lowercase @ uppercase"

text \<open>
  The loop \<open>for (const char of allCharacters)\<close> of \<open>testDiacriticalCharacters\<close>, with
  the object \<open>results\<close> as an association list in insertion order
  (\<open>results[char] = charWidth > 10\<close>).
\<close>

fun probe_characters ::
  "page_behaviour \<Rightarrow> codepoint list \<Rightarrow> (codepoint \<times> bool) list \<Rightarrow> (codepoint \<times> bool) list act" where
  "probe_characters page [] results = returnA results"
| "probe_characters page (char # rest) results =
     bindA (call (EvaluateAppend char) (unit_outcome (evaluate_append page char))) (\<lambda>_.
     bindA (call (EvaluateWidth char) (evaluate_width page char)) (\<lambda>charWidth.
     probe_characters page rest (AList.update char (charWidth > 10) results)))"

text \<open>The object the \<open>catch\<close> block of \<open>testDiacriticalCharacters\<close> returns.\<close>

definition fault_summary :: diacritical_summary where
  "fault_summary =
     \<lparr>individual = [],
      supportedCount = 0,
      totalCount = 0,
      allSupported = False,
      percentageSupported = 0\<rparr>"

text \<open>
  The percentage is \<open>(supportedCount / totalCount) * 100\<close>; the source evaluates it in
  double precision, the model in exact rational arithmetic.
\<close>

definition testDiacriticalCharacters :: "page_behaviour \<Rightarrow> diacritical_summary act" where
  "testDiacriticalCharacters page =
     catchA
       (bindA (probe_characters page allCharacters []) (\<lambda>results.
          let supported = length (filter (\<lambda>v. v) (map snd results));
              total = length allCharacters
          in returnA
               \<lparr>individual = results,
                supportedCount = supported,
                totalCount = total,
                allSupported = (supported = total),
                percentageSupported = (of_nat supported / of_nat total) * 100\<rparr>))
       (\<lambda>e. returnA fault_summary)"

subsection \<open>The analysis of one font\<close>

text \<open>
  The object \<open>analyzeFontCharacters\<close> returns. A property the object does not have is
  \<open>None\<close>. \<open>phrasePreview\<close> is the snapshot whose base64 text the source stores.
\<close>

record font_analysis =
  fontFamily :: string
  okenVsApostropheDifference :: "int option"
  hasVisualDistinction :: "bool option"
  diacriticalSupport :: "diacritical_summary option"
  phrasePreview :: "buffer option"
  error :: "string option"
  autoApproved :: bool

text \<open>
  \<open>element.screenshot()\<close> on what \<open>page.$\<close> returned: on \<open>null\<close> the property access
  throws a \<open>TypeError\<close> and the page is not called.
\<close>

definition screenshot :: "page_behaviour \<Rightarrow> string \<Rightarrow> bool \<Rightarrow> buffer act" where
  "screenshot page selector found =
     (if found then call (Screenshot selector) (element_screenshot page selector)
      else throwA ''Cannot read properties of null (reading 'screenshot')'')"

text \<open>The body of the \<open>try\<close> block of \<open>analyzeFontCharacters\<close>.\<close>

definition analysis_body :: "scanner \<Rightarrow> page_behaviour \<Rightarrow> string \<Rightarrow> font_analysis act" where
  "analysis_body this page family_name =
     bindA (call SetContent (unit_outcome (setContent_fault page))) (\<lambda>_.
     bindA (call WaitForTimeout (unit_outcome (waitForTimeout_fault page))) (\<lambda>_.
     bindA (call (Query ''#okina-test'') (query_selector page ''#okina-test'')) (\<lambda>okenElement.
     bindA (call (Query ''#apostrophe-test'') (query_selector page ''#apostrophe-test'')) (\<lambda>apostropheElement.
     bindA (screenshot page ''#okina-test'' okenElement) (\<lambda>okenScreenshot.
     bindA (screenshot page ''#apostrophe-test'' apostropheElement) (\<lambda>apostropheScreenshot.
     let pixelDifference = compareImages okenScreenshot apostropheScreenshot in
     bindA (testDiacriticalCharacters page) (\<lambda>diacriticalTest.
     bindA (call (Query ''#phrase-test'') (query_selector page ''#phrase-test'')) (\<lambda>phraseElement.
     bindA (screenshot page ''#phrase-test'' phraseElement) (\<lambda>phraseScreenshot.
     returnA
       \<lparr>fontFamily = family_name,
        okenVsApostropheDifference = Some pixelDifference,
        hasVisualDistinction = Some (pixelDifference > pixelThreshold this),
        diacriticalSupport = Some diacriticalTest,
        phrasePreview = Some phraseScreenshot,
        error = None,
        autoApproved = (pixelDifference > pixelThreshold this \<and> allSupported diacriticalTest)\<rparr>)))))))))"

text \<open>The object the \<open>catch\<close> block returns.\<close>

definition error_result :: "string \<Rightarrow> string \<Rightarrow> font_analysis" where
  "error_result family_name message =
     \<lparr>fontFamily = family_name,
      okenVsApostropheDifference = None,
      hasVisualDistinction = None,
      diacriticalSupport = None,
      phrasePreview = None,
      error = Some message,
      autoApproved = False\<rparr>"

text \<open>
  \<open>analyzeFontCharacters\<close>: \<open>opened\<close> is what \<open>this.browser.newPage()\<close> does for this
  call. The page is opened before the \<open>try\<close>; the \<open>finally\<close> block closes it.
\<close>

definition analyzeFontCharacters ::
  "scanner \<Rightarrow> string + page_behaviour \<Rightarrow> string \<Rightarrow> font_analysis act" where
  "analyzeFontCharacters this opened family_name =
     bindA (call NewPage opened) (\<lambda>page.
       finallyA
         (catchA (analysis_body this page family_name)
                 (\<lambda>e. returnA (error_result family_name e)))
         (call Close (unit_outcome (close_fault page))))"

text \<open>
  Three readings of one call of \<open>analyzeFontCharacters\<close>, for stating what a batch does:
  whether the page was opened and its \<open>close()\<close> returned, the object the \<open>try\<close> and
  \<open>catch\<close> blocks return between them, and the message of the exception the \<open>try\<close>
  block raised, if it raised one.
\<close>

definition session_ok :: "string + page_behaviour \<Rightarrow> bool" where
  "session_ok opened =
     (case opened of Inl e \<Rightarrow> False | Inr page \<Rightarrow> close_fault page = None)"

definition caught_analysis :: "scanner \<Rightarrow> page_behaviour \<Rightarrow> string \<Rightarrow> font_analysis" where
  "caught_analysis this page family_name =
     (case fst (analysis_body this page family_name) of
        Inl e \<Rightarrow> error_result family_name e
      | Inr analysis \<Rightarrow> analysis)"

definition analysis_fault :: "scanner \<Rightarrow> string + page_behaviour \<Rightarrow> string \<Rightarrow> string option" where
  "analysis_fault this opened family_name =
     (case opened of
        Inl e \<Rightarrow> None
      | Inr page \<Rightarrow>
          (case fst (analysis_body this page family_name) of
             Inl e \<Rightarrow> Some e
           | Inr analysis \<Rightarrow> None))"

subsection \<open>The font directory and the batch scan\<close>

text \<open>An item of the Google Fonts response, with the fields the scanner copies.\<close>

record font_descriptor =
  family :: string
  variants :: "string list"
  subsets :: "string list"
  version :: string
  lastModified :: string
  files :: "(string \<times> string) list"
  category :: string

text \<open>
  \<open>fetchGoogleFonts(offset = 0, limit = null)\<close>. \<open>response\<close> is what \<open>axios.get\<close>
  does: it throws, or returns \<open>response.data.items\<close>, the catalog sorted by popularity.
  The \<open>catch\<close> block rethrows.
\<close>

definition fetchGoogleFonts ::
  "string + font_descriptor list \<Rightarrow> int \<Rightarrow> int option \<Rightarrow> string + font_descriptor list" where
  "fetchGoogleFonts response offset limit =
     (case response of
        Inl e \<Rightarrow> Inl e
      | Inr items \<Rightarrow>
          (let fonts = (if offset > 0 then js_slice items offset None else items);
               fonts = (if truthy_number limit then js_slice fonts 0 limit else fonts)
           in Inr fonts))"

text \<open>
  The object \<open>scanFontBatch\<close> pushes: the analysis, spread, with the directory's
  metadata, the time of the scan and the batch label.
\<close>

record scan_result = font_analysis +
  googleFontData :: font_descriptor
  scannedAt :: string
  scanBatch :: string

definition batch_label :: "scanner \<Rightarrow> int \<Rightarrow> int option \<Rightarrow> string" where
  "batch_label this offset limit =
     number_text offset @ ''-'' @ number_text (offset + or_number limit (batchSize this))"

definition tag_result :: "font_analysis \<Rightarrow> font_descriptor \<Rightarrow> string \<Rightarrow> string \<Rightarrow> scan_result" where
  "tag_result analysis font now label =
     font_analysis.extend analysis
       (scan_result.fields font now label)"

text \<open>
  The loop \<open>for (let i = 0; i < fonts.length; i++)\<close> of \<open>scanFontBatch\<close>, over the
  fonts still to analyse; \<open>i\<close> is the index of the first of them and \<open>clock i\<close> is
  \<open>new Date().toISOString()\<close> at that iteration. An exception of
  \<open>analyzeFontCharacters\<close> leaves the loop and the function.
\<close>

fun scan_loop ::
  "scanner \<Rightarrow> browser \<Rightarrow> (nat \<Rightarrow> string) \<Rightarrow> string \<Rightarrow> nat \<Rightarrow> font_descriptor list \<Rightarrow>
   scan_result list \<Rightarrow> string + scan_result list" where
  "scan_loop this br clock label i [] results = Inr results"
| "scan_loop this br clock label i (font # rest) results =
     (case fst (analyzeFontCharacters this (newPage br i) (family font)) of
        Inl e \<Rightarrow> Inl e
      | Inr analysis \<Rightarrow>
          scan_loop this br clock label (i + 1) rest
            (results @ [tag_result analysis font (clock i) label]))"

definition scanFontBatch ::
  "scanner \<Rightarrow> string + font_descriptor list \<Rightarrow> browser \<Rightarrow> (nat \<Rightarrow> string) \<Rightarrow>
   int \<Rightarrow> int option \<Rightarrow> string + scan_result list" where
  "scanFontBatch this response br clock offset limit =
     (case fetchGoogleFonts response offset (Some (or_number limit (batchSize this))) of
        Inl e \<Rightarrow> Inl e
      | Inr fonts \<Rightarrow> scan_loop this br clock (batch_label this offset limit) 0 fonts [])"

text \<open>
  The world outside the process: what \<open>puppeteer.launch\<close> does, the directory's
  response and the clock.
\<close>

record world =
  launch :: "string + browser"
  catalog :: "string + font_descriptor list"
  clock :: "nat \<Rightarrow> string"

text \<open>
  \<open>runScan({offset, limit, saveToDisk: false})\<close>: \<open>initialize\<close>, \<open>scanFontBatch\<close>, and
  \<open>cleanup\<close> in the \<open>finally\<close> block, which closes the browser when there is one. A
  limit left out defaults to \<open>this.batchSize\<close>, which is what \<open>scanFontBatch\<close> makes of
  \<open>null\<close>.
\<close>

definition runScan :: "scanner \<Rightarrow> world \<Rightarrow> int \<Rightarrow> int option \<Rightarrow> string + scan_result list" where
  "runScan this w offset limit =
     (case launch w of
        Inl e \<Rightarrow> Inl e
      | Inr br \<Rightarrow>
          (let outcome = scanFontBatch this (catalog w) br (clock w) offset limit
           in case browser_close_fault br of
                Some e \<Rightarrow> Inl e
              | None \<Rightarrow> outcome))"

subsection \<open>The store\<close>

datatype batch_status = Pending | Running | Completed | Failed

record scan_batch =
  batch_id :: int
  batch_number :: int
  scan_type :: string
  batch_offset :: int
  batch_limit :: int
  status :: batch_status
  started_at :: int
  completed_at :: "int option"
  fonts_processed :: "int option"
  fonts_approved :: "int option"
  processing_notes :: "string option"
  error_message :: "string option"

text \<open>
  A call of the stored procedure \<open>insert_scan_result\<close>, which is not part of the
  sources: its four arguments, the last being the batch tag.
\<close>

record scan_result_row =
  row_font_family :: string
  row_google_font_data :: font_descriptor
  row_scan_result :: scan_result
  row_batch_info :: string

text \<open>
  The tables: \<open>scan_batches\<close>, the identifier its next row gets, and the rows handed to
  \<open>insert_scan_result\<close>. Times are milliseconds. The statements of the background scan
  and of the scheduled trigger are evaluated on the tables and return; those of the
  start handler may reject, as the conditions of its request say.
\<close>

record store =
  scan_batches :: "scan_batch list"
  next_batch_id :: int
  scan_result_rows :: "scan_result_row list"

text \<open>\<open>SELECT id FROM scan_batches WHERE status = 'running'\<close>\<close>

definition running_batches :: "store \<Rightarrow> scan_batch list" where
  "running_batches db = filter (\<lambda>b. status b = Running) (scan_batches db)"

text \<open>\<open>COALESCE(MAX(batch_number), 0) + 1\<close>\<close>

definition next_batch_number :: "store \<Rightarrow> int" where
  "next_batch_number db =
     (case scan_batches db of
        [] \<Rightarrow> 0
      | b # bs \<Rightarrow> fold max (map batch_number bs) (batch_number b)) + 1"

text \<open>
  Modelled from the spec: the column defaults of \<open>scan_batches\<close>, whose schema is not
  part of the sources. A new batch gets a fresh identifier, the status \<open>running\<close> and
  the current time as its start; its other columns are empty.
\<close>

definition insert_batch :: "int \<Rightarrow> string \<Rightarrow> int \<Rightarrow> int \<Rightarrow> store \<Rightarrow> scan_batch \<times> store" where
  "insert_batch now scanType offset batch_size db =
     (let row =
        \<lparr>batch_id = next_batch_id db,
         batch_number = next_batch_number db,
         scan_type = scanType,
         batch_offset = offset,
         batch_limit = batch_size,
         status = Running,
         started_at = now,
         completed_at = None,
         fonts_processed = None,
         fonts_approved = None,
         processing_notes = None,
         error_message = None\<rparr>
      in (row, db\<lparr>scan_batches := scan_batches db @ [row],
                  next_batch_id := next_batch_id db + 1\<rparr>))"

subsection \<open>Starting a scan: \<open>POST /api/scan/start\<close>\<close>

record scan_request =
  req_batchSize :: "int option"
  req_offset :: "int option"
  req_scanType :: "string option"
  req_pixelThreshold :: "int option"

text \<open>
  The answers to a request: status 429 of a rate limiter, status 409 with
  \<open>runningScanId\<close>, the body of a started scan with \<open>batchId\<close>, \<open>batchNumber\<close>,
  \<open>offset\<close> and \<open>limit\<close>, or status 500 of the handler's \<open>catch\<close> block.
\<close>

datatype response =
    TooManyRequests
  | Conflict int
  | ScanStarted int int int int
  | ServerError

text \<open>
  What the request meets on its way: whether the rate limiter of the application (100
  requests in 15 minutes) or the one of the scan routes (\<open>scannerLimiter\<close>, 5 requests in
  an hour) rejects it, and whether the query for running batches or the \<open>INSERT\<close> of
  the new batch rejects, with its message.
\<close>

record request_conditions =
  limiter_rejects :: bool
  scannerLimiter_rejects :: bool
  running_query_fault :: "string option"
  insert_fault :: "string option"

text \<open>The arguments of the \<open>scanFontsAsync\<close> call the handler starts and does not await.\<close>

record scan_task =
  task_batchId :: int
  task_offset :: int
  task_batchSize :: int
  task_pixelThreshold :: int

text \<open>
  The route \<open>POST /api/scan/start\<close>: the rate limiters, then the handler. A rate limiter
  that rejects answers 429 and the handler does not run. In the handler a field the
  request body leaves out takes its default. A query that rejects is caught and
  answered 500. With a running batch the handler answers 409 with \<open>rows[0].id\<close> and
  returns; otherwise it inserts the batch, starts the scan and answers with the batch's
  identifier and number.
\<close>

definition start_scan ::
  "int \<Rightarrow> request_conditions \<Rightarrow> scan_request \<Rightarrow> store \<Rightarrow> response \<times> store \<times> scan_task option" where
  "start_scan now conditions req db =
     (if limiter_rejects conditions \<or> scannerLimiter_rejects conditions
      then (TooManyRequests, db, None)
      else
        (let batch_size = (case req_batchSize req of None \<Rightarrow> 50 | Some n \<Rightarrow> n);
             offset = (case req_offset req of None \<Rightarrow> 0 | Some n \<Rightarrow> n);
             scanType = (case req_scanType req of None \<Rightarrow> ''manual'' | Some t \<Rightarrow> t);
             threshold = (case req_pixelThreshold req of None \<Rightarrow> 50 | Some n \<Rightarrow> n)
         in case running_query_fault conditions of
              Some e \<Rightarrow> (ServerError, db, None)
            | None \<Rightarrow>
                (case running_batches db of
                   running # others \<Rightarrow> (Conflict (batch_id running), db, None)
                 | [] \<Rightarrow>
                     (case insert_fault conditions of
                        Some e \<Rightarrow> (ServerError, db, None)
                      | None \<Rightarrow>
                          (case insert_batch now scanType offset batch_size db of
                             (row, db') \<Rightarrow>
                               (ScanStarted (batch_id row) (batch_number row) offset batch_size,
                                db',
                                Some \<lparr>task_batchId = batch_id row,
                                      task_offset = offset,
                                      task_batchSize = batch_size,
                                      task_pixelThreshold = threshold\<rparr>))))))"

subsection \<open>The background scan: \<open>scanFontsAsync\<close>\<close>

text \<open>\<open>insertScanResult(result, `batch-${batchId}`)\<close>: one call of the stored procedure.\<close>

definition result_row :: "scan_result \<Rightarrow> string \<Rightarrow> scan_result_row" where
  "result_row scanResult batchInfo =
     \<lparr>row_font_family = fontFamily scanResult,
      row_google_font_data = googleFontData scanResult,
      row_scan_result = scanResult,
      row_batch_info = batchInfo\<rparr>"

definition insertScanResult :: "scan_result \<Rightarrow> string \<Rightarrow> store \<Rightarrow> store" where
  "insertScanResult scanResult batchInfo db =
     db\<lparr>scan_result_rows := scan_result_rows db @ [result_row scanResult batchInfo]\<rparr>"

text \<open>
  The loop \<open>for (const result of results)\<close>: a result whose \<open>error\<close> is truthy is
  skipped, every other one is inserted and counted.
\<close>

fun insert_results ::
  "int \<Rightarrow> scan_result list \<Rightarrow> store \<Rightarrow> int \<Rightarrow> int \<Rightarrow> store \<times> int \<times> int" where
  "insert_results batchId [] db processedCount approvedCount = (db, processedCount, approvedCount)"
| "insert_results batchId (result # rest) db processedCount approvedCount =
     (if \<not> truthy_string (error result)
      then insert_results batchId rest
             (insertScanResult result (''batch-'' @ number_text batchId) db)
             (processedCount + 1)
             (if autoApproved result then approvedCount + 1 else approvedCount)
      else insert_results batchId rest db processedCount approvedCount)"

text \<open>The two \<open>UPDATE scan_batches ... WHERE id = $n\<close> statements.\<close>

definition mark_completed :: "int \<Rightarrow> int \<Rightarrow> int \<Rightarrow> int \<Rightarrow> store \<Rightarrow> store" where
  "mark_completed now batchId processedCount approvedCount db =
     db\<lparr>scan_batches :=
          map (\<lambda>b. if batch_id b = batchId
                    then b\<lparr>status := Completed,
                           completed_at := Some now,
                           fonts_processed := Some processedCount,
                           fonts_approved := Some approvedCount,
                           processing_notes :=
                             Some (''Processed '' @ number_text processedCount @ '' fonts, '' @
                                   number_text approvedCount @ '' auto-approved'')\<rparr>
                    else b)
              (scan_batches db)\<rparr>"

definition mark_failed :: "int \<Rightarrow> int \<Rightarrow> string \<Rightarrow> store \<Rightarrow> store" where
  "mark_failed now batchId message db =
     db\<lparr>scan_batches :=
          map (\<lambda>b. if batch_id b = batchId
                    then b\<lparr>status := Failed,
                           completed_at := Some now,
                           error_message := Some message\<rparr>
                    else b)
              (scan_batches db)\<rparr>"

text \<open>
  \<open>scanFontsAsync(batchId, offset, batchSize, pixelThreshold)\<close>, run at time \<open>now\<close>
  against the world \<open>w\<close>.
\<close>

definition scanFontsAsync :: "world \<Rightarrow> int \<Rightarrow> scan_task \<Rightarrow> store \<Rightarrow> store" where
  "scanFontsAsync w now task db =
     (let this = new_scanner (Some (task_batchSize task)) (Some (task_pixelThreshold task))
      in case runScan this w (task_offset task) (Some (task_batchSize task)) of
           Inl e \<Rightarrow> mark_failed now (task_batchId task) e db
         | Inr results \<Rightarrow>
             (case insert_results (task_batchId task) results db 0 0 of
                (db', processedCount, approvedCount) \<Rightarrow>
                  mark_completed now (task_batchId task) processedCount approvedCount db'))"

subsection \<open>The scheduled trigger: the \<open>cron.schedule\<close> callback\<close>

text \<open>\<open>SELECT MAX(started_at) FROM scan_batches WHERE scan_type = 'incremental'\<close>\<close>

definition last_incremental_start :: "store \<Rightarrow> int option" where
  "last_incremental_start db =
     (case filter (\<lambda>b. scan_type b = ''incremental'') (scan_batches db) of
        [] \<Rightarrow> None
      | b # bs \<Rightarrow> Some (fold max (map started_at bs) (started_at b)))"

text \<open>
  The clock face that opens the callback's first line: the character U+1F552, as the four
  bytes of its UTF-8 encoding.
\<close>

definition clock_face :: string where
  "clock_face = [CHR 0xF0, CHR 0x9F, CHR 0x95, CHR 0x92]"

text \<open>
  The callback, with what it prints. Where the scan would start the source holds two
  comments and a \<open>console.log\<close>; no statement touches the store.
\<close>

definition scheduled_scan :: "int \<Rightarrow> store \<Rightarrow> store \<times> string list" where
  "scheduled_scan now db =
     (let daysSinceLastScan =
            (case last_incremental_start db of
               Some last_scan \<Rightarrow> (now - last_scan) div (1000 * 60 * 60 * 24)
             | None \<Rightarrow> 999)
      in if daysSinceLastScan \<ge> 14
         then (if running_batches db = []
               then (db, [clock_face @ '' Starting scheduled incremental scan...'',
                          ''Starting incremental scan for new fonts...''])
               else (db, [clock_face @ '' Starting scheduled incremental scan...'']))
         else (db, []))"

subsection \<open>Example inputs\<close>

text \<open>
  A page on which every call returns: the two glyph snapshots differ in all three bytes
  and every test character is 24 units wide.
\<close>

definition example_page :: page_behaviour where
  "example_page =
     \<lparr>setContent_fault = None,
      waitForTimeout_fault = None,
      query_selector = (\<lambda>selector. Inr True),
      element_screenshot = (\<lambda>selector.
        Inr (if selector = ''#okina-test'' then [1, 2, 3]
             else if selector = ''#apostrophe-test'' then [4, 5, 6]
             else [7])),
      evaluate_append = (\<lambda>char. None),
      evaluate_width = (\<lambda>char. Inr 24),
      close_fault = None\<rparr>"

definition example_font :: "string \<Rightarrow> font_descriptor" where
  "example_font name =
     \<lparr>family = name,
      variants = [''regular''],
      subsets = [''latin''],
      version = ''v1'',
      lastModified = ''2024-01-01'',
      files = [],
      category = ''serif''\<rparr>"

text \<open>A browser whose pages all behave like \<open>pages i\<close>, and a world around it.\<close>

definition example_browser :: "(nat \<Rightarrow> string + page_behaviour) \<Rightarrow> browser" where
  "example_browser pages = \<lparr>newPage = pages, browser_close_fault = None\<rparr>"

definition example_clock :: "nat \<Rightarrow> string" where
  "example_clock i = ''2024-06-01T00:00:00.000Z''"

definition example_world :: "(nat \<Rightarrow> string + page_behaviour) \<Rightarrow> font_descriptor list \<Rightarrow> world" where
  "example_world pages fonts =
     \<lparr>launch = Inr (example_browser pages),
      catalog = Inr fonts,
      clock = example_clock\<rparr>"

text \<open>
  Pages of which the first fails to load its content, to open or to close, a page
  whose snapshots are all the same, and a page that fails in the first width
  measurement of the diacritical test.
\<close>

definition first_page_fails_to_load :: "nat \<Rightarrow> string + page_behaviour" where
  "first_page_fails_to_load i =
     Inr (if i = 0 then example_page\<lparr>setContent_fault := Some ''Navigation timeout''\<rparr>
          else example_page)"

definition first_page_fails_to_open :: "nat \<Rightarrow> string + page_behaviour" where
  "first_page_fails_to_open i =
     (if i = 0 then Inl ''Protocol error: Target.createTarget'' else Inr example_page)"

definition first_page_fails_to_close :: "nat \<Rightarrow> string + page_behaviour" where
  "first_page_fails_to_close i =
     Inr (if i = 0 then example_page\<lparr>close_fault := Some ''Protocol error: Target closed''\<rparr>
          else example_page)"

definition same_snapshot_page :: page_behaviour where
  "same_snapshot_page =
     example_page\<lparr>element_screenshot := (\<lambda>selector. Inr [1, 2, 3])\<rparr>"

definition probe_faulting_page :: page_behaviour where
  "probe_faulting_page =
     example_page\<lparr>evaluate_width := (\<lambda>char. Inl ''Execution context was destroyed'')\<rparr>"

text \<open>
  A store holding one batch, number 1 with identifier 1, started at time 0: running, or
  completed as an incremental scan.
\<close>

definition example_batch :: "string \<Rightarrow> batch_status \<Rightarrow> scan_batch" where
  "example_batch scanType st =
     \<lparr>batch_id = 1,
      batch_number = 1,
      scan_type = scanType,
      batch_offset = 0,
      batch_limit = 50,
      status = st,
      started_at = 0,
      completed_at = None,
      fonts_processed = None,
      fonts_approved = None,
      processing_notes = None,
      error_message = None\<rparr>"

definition example_store :: "scan_batch list \<Rightarrow> store" where
  "example_store batches =
     \<lparr>scan_batches = batches, next_batch_id = 2, scan_result_rows = []\<rparr>"

text \<open>
  The complete analysis of a font on the example page with \<open>pixelThreshold = 2\<close>: a
  score of 3, all ten characters supported, approved.
\<close>

definition example_analysis :: "string \<Rightarrow> font_analysis" where
  "example_analysis name =
     \<lparr>fontFamily = name,
      okenVsApostropheDifference = Some 3,
      hasVisualDistinction = Some True,
      diacriticalSupport =
        Some \<lparr>individual =
                [(257, True), (275, True), (299, True), (333, True), (363, True),
                 (256, True), (274, True), (298, True), (332, True), (362, True)],
              supportedCount = 10,
              totalCount = 10,
              allSupported = True,
              percentageSupported = 100\<rparr>,
      phrasePreview = Some [7],
      error = None,
      autoApproved = True\<rparr>"

text \<open>
  What the scan of the fonts Lato and Roboto returns when Lato's page fails to load: the
  \<open>catch\<close> block's object for Lato and the complete analysis for Roboto.
\<close>

definition example_results :: "scan_result list" where
  "example_results =
     [tag_result (error_result ''Lato'' ''Navigation timeout'')
        (example_font ''Lato'') (example_clock 0) ''0-50'',
      tag_result (example_analysis ''Roboto'')
        (example_font ''Roboto'') (example_clock 1) ''0-50'']"

definition example_task :: scan_task where
  "example_task =
     \<lparr>task_batchId = 1, task_offset = 0, task_batchSize = 50, task_pixelThreshold = 2\<rparr>"

text \<open>A request that no rate limiter rejects and whose statements all return.\<close>

definition clear_conditions :: request_conditions where
  "clear_conditions =
     \<lparr>limiter_rejects = False,
      scannerLimiter_rejects = False,
      running_query_fault = None,
      insert_fault = None\<rparr>"

definition empty_request :: scan_request where
  "empty_request =
     \<lparr>req_batchSize = None, req_offset = None, req_scanType = None,
      req_pixelThreshold = None\<rparr>"

section \<open>Properties\<close>

subsection \<open>The difference score\<close>

lemma count_differences_filter:
  "count_differences a b i d =
     d + int (length (filter (\<lambda>j. buf_get a j \<noteq> buf_get b j) [i..<length a]))"
proof (induction a b i d rule: count_differences.induct)
  case (1 a b i d)
  show ?case
  proof (cases "i < length a")
    case True
    then have "[i..<length a] = i # [i + 1..<length a]"
      by (simp add: upt_conv_Cons)
    with True "1.IH" show ?thesis
      by (subst count_differences.simps) simp
  next
    case False
    then show ?thesis
      by (subst count_differences.simps) simp
  qed
qed

lemma filter_upt_card:
  "length (filter P [0..<n]) = card {i. i < n \<and> P i}"
proof -
  have "length (filter P [0..<n]) = card {i. i < length [0..<n] \<and> P ([0..<n] ! i)}"
    by (rule length_filter_conv_card)
  also have "{i. i < length [0..<n] \<and> P ([0..<n] ! i)} = {i. i < n \<and> P i}"
    by auto
  finally show ?thesis .
qed

lemma count_differences_card:
  assumes "length a = length b"
  shows "count_differences a b 0 0 = int (card {i. i < length a \<and> a ! i \<noteq> b ! i})"
proof -
  have "{i. i < length a \<and> buf_get a i \<noteq> buf_get b i} = {i. i < length a \<and> a ! i \<noteq> b ! i}"
    using assms by (auto simp: buf_get_def)
  then show ?thesis
    by (simp add: count_differences_filter filter_upt_card)
qed

text \<open>
  Claim C1. For all byte buffers \<open>a\<close> and \<open>b\<close>, \<open>compareImages a b\<close> is the absolute
  difference of the lengths when they differ, and the exact number of positions \<open>i\<close>
  with \<open>a[i] \<noteq> b[i]\<close> when they are equal; it is never negative.
\<close>

theorem compareImages_spec:
  "compareImages a b =
     (if length a \<noteq> length b then \<bar>int (length a) - int (length b)\<bar>
      else int (card {i. i < length a \<and> a ! i \<noteq> b ! i}))
   \<and> 0 \<le> compareImages a b"
proof -
  have eq: "compareImages a b =
     (if length a \<noteq> length b then \<bar>int (length a) - int (length b)\<bar>
      else int (card {i. i < length a \<and> a ! i \<noteq> b ! i}))"
    by (simp add: compareImages_def count_differences_card)
  have "0 \<le> compareImages a b"
    by (subst eq) simp
  with eq show ?thesis by blast
qed

text \<open>
  Claim C10. The difference score is symmetric: \<open>compareImages a b = compareImages b a\<close>
  for all buffers, whether the lengths differ or not.
\<close>

theorem compareImages_symmetric:
  "compareImages a b = compareImages b a"
proof (cases "length a = length b")
  case True
  have "{i. i < length a \<and> a ! i \<noteq> b ! i} = {i. i < length b \<and> b ! i \<noteq> a ! i}"
    using True by auto
  with True show ?thesis
    by (simp add: compareImages_def count_differences_card)
next
  case False
  then show ?thesis
    by (simp add: compareImages_def abs_minus_commute)
qed

subsection \<open>Actions: outcome and calls\<close>

lemma fst_bindA:
  "fst (bindA m f) = (case fst m of Inl e \<Rightarrow> Inl e | Inr x \<Rightarrow> fst (f x))"
  by (simp add: bindA_def split: prod.splits sum.splits)

lemma snd_bindA:
  "snd (bindA m f) = (case fst m of Inl e \<Rightarrow> snd m | Inr x \<Rightarrow> snd m @ snd (f x))"
  by (simp add: bindA_def split: prod.splits sum.splits)

lemma fst_catchA:
  "fst (catchA m h) = (case fst m of Inl e \<Rightarrow> fst (h e) | Inr x \<Rightarrow> Inr x)"
  by (simp add: catchA_def split: prod.splits sum.splits)

lemma snd_catchA:
  "snd (catchA m h) = (case fst m of Inl e \<Rightarrow> snd m @ snd (h e) | Inr x \<Rightarrow> snd m)"
  by (simp add: catchA_def split: prod.splits sum.splits)

lemma fst_finallyA:
  "fst (finallyA m fin) = (case fst fin of Inl e \<Rightarrow> Inl e | Inr u \<Rightarrow> fst m)"
  by (simp add: finallyA_def split: prod.splits sum.splits)

lemma snd_finallyA:
  "snd (finallyA m fin) = snd m @ snd fin"
  by (simp add: finallyA_def split: prod.splits sum.splits)

lemma act_simps:
  "fst (returnA x) = Inr x" "snd (returnA x) = []"
  "fst (throwA e) = Inl e" "snd (throwA e) = []"
  "fst (call c outcome) = outcome" "snd (call c outcome) = [c]"
  by (simp_all add: returnA_def throwA_def call_def)

subsection \<open>The page is closed\<close>

text \<open>
  No call of the \<open>try\<close> block opens or closes a page: not the probes of the diacritical
  test, not the snapshots, not the body as a whole.
\<close>

lemma probe_characters_calls:
  "Close \<notin> set (snd (probe_characters page cs rs)) \<and> NewPage \<notin> set (snd (probe_characters page cs rs))"
  by (induction cs arbitrary: rs) (auto simp: snd_bindA act_simps split: sum.splits)

lemma testDiacriticalCharacters_calls:
  "Close \<notin> set (snd (testDiacriticalCharacters page)) \<and> NewPage \<notin> set (snd (testDiacriticalCharacters page))"
  using probe_characters_calls [of page allCharacters "[]"]
  by (auto simp: testDiacriticalCharacters_def snd_catchA snd_bindA act_simps Let_def split: sum.splits)

lemma screenshot_calls:
  "Close \<notin> set (snd (screenshot page sel found)) \<and> NewPage \<notin> set (snd (screenshot page sel found))"
  by (simp add: screenshot_def act_simps)

lemma analysis_body_calls:
  "Close \<notin> set (snd (analysis_body this page fam)) \<and> NewPage \<notin> set (snd (analysis_body this page fam))"
  using testDiacriticalCharacters_calls [of page]
  by (auto simp: analysis_body_def snd_bindA act_simps Let_def screenshot_def split: sum.splits)

text \<open>
  Claim C5. Once \<open>newPage\<close> has returned the page, whatever the page then does (the
  analysis succeeds, a probe or a capture throws, any other call throws, \<open>close()\<close> itself
  throws), the calls \<open>analyzeFontCharacters\<close> has made when it returns are: \<open>newPage\<close>,
  then calls that neither open nor close a page, then \<open>close()\<close> as the last call. The
  page is closed on every exit path, and once.
\<close>

theorem page_closed_on_every_path:
  "\<exists>calls. snd (analyzeFontCharacters this (Inr page) fam) = NewPage # calls @ [Close]
     \<and> Close \<notin> set calls \<and> NewPage \<notin> set calls"
proof -
  let ?guarded = "catchA (analysis_body this page fam) (\<lambda>e. returnA (error_result fam e))"
  have calls: "snd ?guarded = snd (analysis_body this page fam)"
    by (simp add: snd_catchA act_simps split: sum.splits)
  have "snd (analyzeFontCharacters this (Inr page) fam) = NewPage # snd ?guarded @ [Close]"
    by (simp add: analyzeFontCharacters_def snd_bindA snd_finallyA act_simps)
  with calls analysis_body_calls [of this page fam] show ?thesis
    by auto
qed

subsection \<open>The verdict of one analysis\<close>

text \<open>
  A result of the \<open>try\<close> block has every field of the analysis and no \<open>error\<close>; a
  result of \<open>analyzeFontCharacters\<close> is one of these or the \<open>catch\<close> block's object.
\<close>

lemma analysis_body_Inr:
  assumes "fst (analysis_body this page fam) = Inr r"
  shows "\<exists>score summary preview.
           r = \<lparr>fontFamily = fam,
                okenVsApostropheDifference = Some score,
                hasVisualDistinction = Some (score > pixelThreshold this),
                diacriticalSupport = Some summary,
                phrasePreview = Some preview,
                error = None,
                autoApproved = (score > pixelThreshold this \<and> allSupported summary)\<rparr>"
  using assms
  by (auto simp: analysis_body_def fst_bindA act_simps Let_def split: sum.splits)

lemma analyzeFontCharacters_Inr:
  assumes "fst (analyzeFontCharacters this opened fam) = Inr r"
  shows "\<exists>page. opened = Inr page \<and> close_fault page = None \<and>
           (case fst (analysis_body this page fam) of
              Inl e \<Rightarrow> r = error_result fam e
            | Inr a \<Rightarrow> r = a)"
  using assms
  by (auto simp: analyzeFontCharacters_def fst_bindA fst_finallyA fst_catchA act_simps unit_outcome_def
           split: sum.splits option.splits)

text \<open>
  What a result of the \<open>try\<close> block was computed from: the two glyph snapshots the page
  returned, compared by \<open>compareImages\<close>, and the summary \<open>testDiacriticalCharacters\<close>
  returned on that page.
\<close>

lemma analysis_body_measures:
  assumes "fst (analysis_body this page fam) = Inr r"
  shows "\<exists>okina apostrophe summary.
           element_screenshot page ''#okina-test'' = Inr okina \<and>
           element_screenshot page ''#apostrophe-test'' = Inr apostrophe \<and>
           fst (testDiacriticalCharacters page) = Inr summary \<and>
           okenVsApostropheDifference r = Some (compareImages okina apostrophe) \<and>
           diacriticalSupport r = Some summary \<and>
           hasVisualDistinction r = Some (compareImages okina apostrophe > pixelThreshold this) \<and>
           autoApproved r =
             (compareImages okina apostrophe > pixelThreshold this \<and> allSupported summary)"
  using assms
  by (auto simp: analysis_body_def fst_bindA act_simps Let_def screenshot_def
           split: sum.splits if_splits)

text \<open>
  Claim C2. When \<open>analyzeFontCharacters\<close> returns a result without \<open>error\<close>, the page
  was opened and returned the snapshots of the \<open>#okina-test\<close> and \<open>#apostrophe-test\<close>
  elements, and the diacritical test returned its summary on that page. The result's
  score is \<open>compareImages\<close> of the two snapshots and its \<open>diacriticalSupport\<close> is that
  summary; \<open>hasVisualDistinction\<close> is true exactly when the score is strictly greater
  than \<open>pixelThreshold\<close>, and \<open>autoApproved\<close> is true exactly when the score is strictly
  greater than \<open>pixelThreshold\<close> and the summary's \<open>allSupported\<close> is true.
\<close>

theorem autoApproved_iff:
  assumes "fst (analyzeFontCharacters this opened fam) = Inr r"
    and "error r = None"
  shows "\<exists>page okina apostrophe summary.
           opened = Inr page \<and>
           element_screenshot page ''#okina-test'' = Inr okina \<and>
           element_screenshot page ''#apostrophe-test'' = Inr apostrophe \<and>
           fst (testDiacriticalCharacters page) = Inr summary \<and>
           okenVsApostropheDifference r = Some (compareImages okina apostrophe) \<and>
           diacriticalSupport r = Some summary \<and>
           hasVisualDistinction r = Some (compareImages okina apostrophe > pixelThreshold this) \<and>
           autoApproved r =
             (compareImages okina apostrophe > pixelThreshold this \<and> allSupported summary)"
proof -
  from analyzeFontCharacters_Inr [OF assms(1)] obtain page where
    page: "opened = Inr page"
    and r: "case fst (analysis_body this page fam) of
              Inl e \<Rightarrow> r = error_result fam e | Inr a \<Rightarrow> r = a"
    by (elim exE conjE)
  show ?thesis
  proof (cases "fst (analysis_body this page fam)")
    case (Inl e)
    with r assms(2) show ?thesis by (simp add: error_result_def)
  next
    case (Inr a)
    with r have "fst (analysis_body this page fam) = Inr r" by simp
    from analysis_body_measures [OF this] obtain okina apostrophe summary where
      "element_screenshot page ''#okina-test'' = Inr okina"
      "element_screenshot page ''#apostrophe-test'' = Inr apostrophe"
      "fst (testDiacriticalCharacters page) = Inr summary"
      "okenVsApostropheDifference r = Some (compareImages okina apostrophe)"
      "diacriticalSupport r = Some summary"
      "hasVisualDistinction r = Some (compareImages okina apostrophe > pixelThreshold this)"
      "autoApproved r =
         (compareImages okina apostrophe > pixelThreshold this \<and> allSupported summary)"
      by (elim exE conjE)
    with page show ?thesis
      by (intro exI [of _ page] exI [of _ okina] exI [of _ apostrophe] exI [of _ summary] conjI)
  qed
qed

text \<open>
  The theorem at the example page with \<open>pixelThreshold = 2\<close>: the snapshots \<open>[1, 2, 3]\<close>
  and \<open>[4, 5, 6]\<close> differ in three bytes and all ten characters are supported, so the
  font is approved. On the same page with two equal snapshots the score is 0 and the
  font is not approved.
\<close>

theorem autoApproved_iff_witness:
  "fst (analyzeFontCharacters (new_scanner None (Some 2)) (Inr example_page) ''Lato'')
     = Inr (example_analysis ''Lato'') \<and>
   error (example_analysis ''Lato'') = None \<and>
   compareImages [1, 2, 3] [4, 5, 6] = 3 \<and>
   okenVsApostropheDifference (example_analysis ''Lato'') = Some 3 \<and>
   hasVisualDistinction (example_analysis ''Lato'') = Some True \<and>
   fst (testDiacriticalCharacters example_page) = Inr (the (diacriticalSupport (example_analysis ''Lato''))) \<and>
   allSupported (the (diacriticalSupport (example_analysis ''Lato''))) \<and>
   autoApproved (example_analysis ''Lato'') \<and>
   okenVsApostropheDifference (projr (fst (analyzeFontCharacters (new_scanner None (Some 2))
         (Inr same_snapshot_page) ''Lato''))) = Some 0 \<and>
   \<not> autoApproved (projr (fst (analyzeFontCharacters (new_scanner None (Some 2))
         (Inr same_snapshot_page) ''Lato'')))"
proof -
  have run: "fst (analyzeFontCharacters (new_scanner None (Some 2)) (Inr example_page) ''Lato'')
               = Inr (example_analysis ''Lato'')"
    by code_simp
  have no_error: "error (example_analysis ''Lato'') = None"
    by (simp add: example_analysis_def)
  have score: "compareImages [1, 2, 3] [4, 5, 6] = 3"
    by code_simp
  have summary: "fst (testDiacriticalCharacters example_page)
                   = Inr (the (diacriticalSupport (example_analysis ''Lato'')))"
    by code_simp
  have same: "okenVsApostropheDifference (projr (fst (analyzeFontCharacters
         (new_scanner None (Some 2)) (Inr same_snapshot_page) ''Lato''))) = Some 0"
    "\<not> autoApproved (projr (fst (analyzeFontCharacters (new_scanner None (Some 2))
         (Inr same_snapshot_page) ''Lato'')))"
    by code_simp+
  from autoApproved_iff [OF run no_error] run score summary same show ?thesis
    by (simp add: example_analysis_def)
qed

subsection \<open>The diacritical summary\<close>

text \<open>
  Claim C7, as stated, fails for the summary of a test that faults. On a page whose
  width measurement throws, \<open>testDiacriticalCharacters\<close> returns the \<open>catch\<close> block's
  object, in which \<open>supportedCount\<close> and \<open>totalCount\<close> are both 0 and \<open>allSupported\<close> is
  false: \<open>allSupported\<close> is not "true iff \<open>supportedCount = totalCount\<close>" there.
\<close>

theorem diacritical_fault_summary_counterexample:
  "fst (testDiacriticalCharacters probe_faulting_page) = Inr fault_summary
   \<and> supportedCount fault_summary = totalCount fault_summary
   \<and> \<not> allSupported fault_summary"
  by code_simp

text \<open>
  Claim C7, amended. \<open>testDiacriticalCharacters\<close> always returns a summary. When none
  of its probes throws, the summary has \<open>totalCount = 10\<close>, \<open>allSupported\<close> true exactly
  when \<open>supportedCount = totalCount\<close>, and \<open>percentageSupported\<close> equal to
  \<open>supportedCount / totalCount \<times> 100\<close>. When a probe throws, the summary is the \<open>catch\<close>
  block's object: both counts 0, \<open>allSupported\<close> false, \<open>percentageSupported\<close> 0.
\<close>

theorem diacritical_summary_consistent:
  "\<exists>s. fst (testDiacriticalCharacters page) = Inr s \<and>
     (if isl (fst (probe_characters page allCharacters []))
      then s = fault_summary \<and> supportedCount s = 0 \<and> totalCount s = 0 \<and>
           \<not> allSupported s \<and> percentageSupported s = 0
      else totalCount s = 10 \<and>
           (allSupported s \<longleftrightarrow> supportedCount s = totalCount s) \<and>
           percentageSupported s = of_nat (supportedCount s) / of_nat (totalCount s) * 100)"
  by (cases "fst (probe_characters page allCharacters [])")
     (simp_all add: testDiacriticalCharacters_def fst_catchA fst_bindA act_simps Let_def
        allCharacters_def lowercase_def uppercase_def fault_summary_def)

subsection \<open>The window of the catalog\<close>

text \<open>
  Claim C9, as stated, fails for the limit 0: \<open>if (limit)\<close> is false for 0 as it is
  for \<open>null\<close>, so no limit is applied and the whole catalog is returned where the window
  \<open>s[0 .. 0)\<close> is empty.
\<close>

theorem fetchGoogleFonts_zero_limit_counterexample:
  "fetchGoogleFonts (Inr [example_font ''Lato'', example_font ''Roboto'']) 0 (Some 0)
     = Inr [example_font ''Lato'', example_font ''Roboto'']
   \<and> fetchGoogleFonts (Inr [example_font ''Lato'', example_font ''Roboto'']) 0 (Some 0)
     \<noteq> Inr (take 0 (drop 0 [example_font ''Lato'', example_font ''Roboto'']))"
  by code_simp

lemma js_slice_from: "0 < k \<Longrightarrow> js_slice xs k None = drop (nat k) xs"
  by (auto simp: js_slice_def slice_index_def min_def)

lemma js_slice_upto: "0 < l \<Longrightarrow> js_slice xs 0 (Some l) = take (nat l) xs"
  by (auto simp: js_slice_def slice_index_def min_def)

text \<open>
  Claim C9, amended. For every offset and every positive limit \<open>l\<close>,
  \<open>fetchGoogleFonts\<close> returns the catalog with the first \<open>offset\<close> items dropped and then
  at most \<open>l\<close> items taken (an offset that is not positive drops nothing). With the
  limit 0 or \<open>null\<close> it returns every item from \<open>offset\<close> on.
\<close>

theorem fetchGoogleFonts_window:
  assumes "0 < l"
  shows "fetchGoogleFonts (Inr items) offset (Some l) = Inr (take (nat l) (drop (nat offset) items))
    \<and> fetchGoogleFonts (Inr items) offset (Some 0) = Inr (drop (nat offset) items)
    \<and> fetchGoogleFonts (Inr items) offset None = Inr (drop (nat offset) items)"
  using assms
  by (auto simp: fetchGoogleFonts_def truthy_number_def js_slice_from js_slice_upto Let_def)

text \<open>
  The theorem on a catalog of three fonts, with offset 1 and the limits 1 and 0.
\<close>

theorem fetchGoogleFonts_window_witness:
  "fetchGoogleFonts (Inr [example_font ''Lato'', example_font ''Roboto'', example_font ''Inter'']) 1 (Some 1)
     = Inr [example_font ''Roboto'']
   \<and> fetchGoogleFonts (Inr [example_font ''Lato'', example_font ''Roboto'', example_font ''Inter'']) 1 (Some 0)
     = Inr [example_font ''Roboto'', example_font ''Inter'']"
  using fetchGoogleFonts_window
    [of 1 "[example_font ''Lato'', example_font ''Roboto'', example_font ''Inter'']" 1]
  by simp

subsection \<open>A fault in one font of a batch\<close>

lemma analyzeFontCharacters_session_ok:
  assumes "session_ok opened"
  shows "\<exists>page. opened = Inr page \<and>
           fst (analyzeFontCharacters this opened fam) = Inr (caught_analysis this page fam)"
  using assms
  by (auto simp: session_ok_def analyzeFontCharacters_def fst_bindA fst_finallyA fst_catchA
        act_simps unit_outcome_def caught_analysis_def split: sum.splits)

lemma tag_result_fields:
  "fontFamily (tag_result a font now label) = fontFamily a"
  "error (tag_result a font now label) = error a"
  "autoApproved (tag_result a font now label) = autoApproved a"
  "okenVsApostropheDifference (tag_result a font now label) = okenVsApostropheDifference a"
  "hasVisualDistinction (tag_result a font now label) = hasVisualDistinction a"
  "diacriticalSupport (tag_result a font now label) = diacriticalSupport a"
  "phrasePreview (tag_result a font now label) = phrasePreview a"
  "googleFontData (tag_result a font now label) = font"
  by (simp_all add: tag_result_def font_analysis.extend_def scan_result.fields_def)

lemma tag_result_truncate:
  "font_analysis.truncate (tag_result a font now label) = a"
  by (simp add: tag_result_def font_analysis.extend_def scan_result.fields_def
        font_analysis.truncate_def)

lemma analysis_sound:
  assumes "fst (analyzeFontCharacters this opened fam) = Inr a"
  shows "fontFamily a = fam \<and> (error a \<noteq> None \<longrightarrow> \<not> autoApproved a)"
proof -
  from analyzeFontCharacters_Inr [OF assms] obtain page where
    a: "case fst (analysis_body this page fam) of Inl e \<Rightarrow> a = error_result fam e | Inr b \<Rightarrow> a = b"
    by blast
  show ?thesis
  proof (cases "fst (analysis_body this page fam)")
    case (Inl e)
    with a show ?thesis by (simp add: error_result_def)
  next
    case (Inr b)
    with a have "fst (analysis_body this page fam) = Inr a" by simp
    from analysis_body_Inr [OF this] show ?thesis by auto
  qed
qed

text \<open>
  Whenever the loop returns, it has appended one result per font, in order, each with
  the font's metadata; a result with an \<open>error\<close> is not approved.
\<close>

lemma scan_loop_Inr:
  assumes "scan_loop this br clk label i fonts acc = Inr results"
  shows "\<exists>new. results = acc @ new \<and>
           map googleFontData new = fonts \<and>
           map fontFamily new = map family fonts \<and>
           (\<forall>r \<in> set new. error r \<noteq> None \<longrightarrow> \<not> autoApproved r)"
  using assms
proof (induction fonts arbitrary: i acc)
  case Nil
  then show ?case by simp
next
  case (Cons font rest)
  show ?case
  proof (cases "fst (analyzeFontCharacters this (newPage br i) (family font))")
    case (Inl e)
    with Cons.prems show ?thesis by simp
  next
    case (Inr a)
    define x where "x = tag_result a font (clk i) label"
    from Cons.prems Inr have "scan_loop this br clk label (i + 1) rest (acc @ [x]) = Inr results"
      by (simp add: x_def)
    from Cons.IH [OF this] obtain new where
      new: "results = (acc @ [x]) @ new"
        "map googleFontData new = rest"
        "map fontFamily new = map family rest"
        "\<forall>r \<in> set new. error r \<noteq> None \<longrightarrow> \<not> autoApproved r"
      by blast
    from analysis_sound [OF Inr] have x: "fontFamily x = family font"
      "error x \<noteq> None \<longrightarrow> \<not> autoApproved x" "googleFontData x = font"
      by (simp_all add: x_def tag_result_fields)
    have "results = acc @ (x # new)"
      using new(1) by simp
    moreover have "map googleFontData (x # new) = font # rest"
      using new(2) x(3) by simp
    moreover have "map fontFamily (x # new) = map family (font # rest)"
      using new(3) x(1) by simp
    moreover have "\<forall>r \<in> set (x # new). error r \<noteq> None \<longrightarrow> \<not> autoApproved r"
      using new(4) x(2) by simp
    ultimately show ?thesis
      by (intro exI [of _ "x # new"] conjI)
  qed
qed

text \<open>
  With every page opened and closed without fault, the loop returns, and the result of
  each font is the object the \<open>try\<close> block returned or the \<open>catch\<close> block's object.
\<close>

lemma scan_loop_sessions_ok:
  assumes "\<forall>j<length fonts. session_ok (newPage br (i + j))"
  shows "\<exists>new. scan_loop this br clk label i fonts acc = Inr (acc @ new) \<and>
           length new = length fonts \<and>
           (\<forall>j<length fonts. \<exists>page. newPage br (i + j) = Inr page \<and>
              font_analysis.truncate (new ! j) = caught_analysis this page (family (fonts ! j)))"
  using assms
proof (induction fonts arbitrary: i acc)
  case Nil
  then show ?case by simp
next
  case (Cons font rest)
  have ok: "session_ok (newPage br (i + j))" if "j < length (font # rest)" for j
    using Cons.prems that by blast
  from ok [of 0] have "session_ok (newPage br i)" by simp
  from analyzeFontCharacters_session_ok [OF this, of this "family font"]
  obtain page where
    page: "newPage br i = Inr page"
    and a: "fst (analyzeFontCharacters this (newPage br i) (family font)) =
              Inr (caught_analysis this page (family font))"
    by blast
  define x where "x = tag_result (caught_analysis this page (family font)) font (clk i) label"
  have "session_ok (newPage br (i + 1 + j))" if "j < length rest" for j
    using ok [of "Suc j"] that by simp
  then have "\<forall>j<length rest. session_ok (newPage br (i + 1 + j))"
    by blast
  from Cons.IH [OF this, of "acc @ [x]"] obtain new where
    new: "scan_loop this br clk label (i + 1) rest (acc @ [x]) = Inr ((acc @ [x]) @ new)"
      "length new = length rest"
      "\<forall>j<length rest. \<exists>page. newPage br (i + 1 + j) = Inr page \<and>
              font_analysis.truncate (new ! j) = caught_analysis this page (family (rest ! j))"
    by blast
  have run: "scan_loop this br clk label i (font # rest) acc = Inr (acc @ (x # new))"
    using a new(1) by (simp add: x_def)
  have each: "\<exists>page. newPage br (i + j) = Inr page \<and>
              font_analysis.truncate ((x # new) ! j) =
                caught_analysis this page (family ((font # rest) ! j))"
    if "j < length (font # rest)" for j
  proof (cases j)
    case 0
    with page show ?thesis by (simp add: x_def tag_result_fields tag_result_truncate)
  next
    case (Suc j')
    with that have "j' < length rest" by simp
    with new(3) have "\<exists>page. newPage br (i + 1 + j') = Inr page \<and>
              font_analysis.truncate (new ! j') = caught_analysis this page (family (rest ! j'))"
      by blast
    with Suc show ?thesis by simp
  qed
  have "length (x # new) = length (font # rest)"
    using new(2) by simp
  with run each show ?case
    by (intro exI [of _ "x # new"] conjI allI impI)
qed

text \<open>
  A page that fails to open or to close makes the loop, and with it the batch, throw:
  \<open>analyzeFontCharacters\<close> returns only when its page was opened and closed.
\<close>

lemma analyzeFontCharacters_returns_session_ok:
  assumes "fst (analyzeFontCharacters this opened fam) = Inr a"
  shows "session_ok opened"
proof -
  from analyzeFontCharacters_Inr [OF assms] obtain page where
    "opened = Inr page" "close_fault page = None"
    by (elim exE conjE)
  then show ?thesis by (simp add: session_ok_def)
qed

lemma scan_loop_session_fault:
  assumes "j < length fonts" and "\<not> session_ok (newPage br (i + j))"
  shows "\<exists>e. scan_loop this br clk label i fonts acc = Inl e"
  using assms
proof (induction fonts arbitrary: i j acc)
  case Nil
  then show ?case by simp
next
  case (Cons font rest)
  show ?case
  proof (cases "fst (analyzeFontCharacters this (newPage br i) (family font))")
    case (Inl e)
    then show ?thesis by simp
  next
    case (Inr a)
    from analyzeFontCharacters_returns_session_ok [OF Inr] have "session_ok (newPage br i)" .
    with Cons.prems(2) have "j \<noteq> 0"
      by (cases j) auto
    then obtain j' where j: "j = Suc j'"
      by (cases j) auto
    with Cons.prems have "j' < length rest" "\<not> session_ok (newPage br (i + 1 + j'))"
      by simp_all
    from Cons.IH [OF this, of "acc @ [tag_result a font (clk i) label]"] obtain e where
      "scan_loop this br clk label (i + 1) rest
         (acc @ [tag_result a font (clk i) label]) = Inl e"
      by (elim exE)
    with Inr show ?thesis by simp
  qed
qed

lemma scanFontBatch_session_fault:
  assumes "fetchGoogleFonts response offset (Some (or_number limit (batchSize this))) = Inr fonts"
    and "j < length fonts" and "\<not> session_ok (newPage br j)"
  shows "\<exists>e. scanFontBatch this response br clk offset limit = Inl e"
proof -
  from assms(3) have "\<not> session_ok (newPage br (0 + j))" by simp
  from scan_loop_session_fault [OF assms(2) this] assms(1) show ?thesis
    by (simp add: scanFontBatch_def)
qed

text \<open>
  Claim C3, as stated, fails for a fault outside the \<open>try\<close> block. \<open>newPage()\<close> is
  called before the \<open>try\<close>, and \<open>close()\<close> in the \<open>finally\<close> block: an exception of
  either leaves \<open>analyzeFontCharacters\<close>, and \<open>scanFontBatch\<close> does not catch it. In a
  batch of two fonts whose first page fails to open, and in one whose first page fails
  to close, that single fault aborts the batch: \<open>scanFontBatch\<close> throws and returns no
  result, though the analysis of the second font, on its own, returns a complete
  result.
\<close>

theorem scanFontBatch_unguarded_fault_counterexample:
  "scanFontBatch (new_scanner None (Some 2)) (Inr [example_font ''Lato'', example_font ''Roboto''])
     (example_browser first_page_fails_to_open) example_clock 0 None
     = Inl ''Protocol error: Target.createTarget''
   \<and> scanFontBatch (new_scanner None (Some 2)) (Inr [example_font ''Lato'', example_font ''Roboto''])
     (example_browser first_page_fails_to_close) example_clock 0 None
     = Inl ''Protocol error: Target closed''
   \<and> fst (analyzeFontCharacters (new_scanner None (Some 2)) (first_page_fails_to_open 1) ''Roboto'')
     = Inr (example_analysis ''Roboto'')
   \<and> fst (analyzeFontCharacters (new_scanner None (Some 2)) (first_page_fails_to_close 1) ''Roboto'')
     = Inr (example_analysis ''Roboto'')"
  by code_simp

text \<open>
  Claim C3, amended. For every batch of \<open>N\<close> fetched fonts in which every page opens
  and closes without fault and the \<open>try\<close> block throws for exactly one font \<open>k\<close>,
  \<open>scanFontBatch\<close> returns \<open>N\<close> results in the order of the fonts, each with its font's
  metadata. The analysis fields of result \<open>k\<close> are \<open>fontFamily\<close>, \<open>error\<close> (the message
  thrown) and \<open>autoApproved = false\<close>, and no other. Every other result has no \<open>error\<close>
  and all the fields of a complete analysis, with \<open>autoApproved\<close> decided from its score
  and summary.
\<close>

theorem scanFontBatch_absorbs_fault:
  assumes fetched: "fetchGoogleFonts response offset (Some (or_number limit (batchSize this))) = Inr fonts"
    and sessions: "\<forall>i<length fonts. session_ok (newPage br i)"
    and k: "k < length fonts"
    and fault: "analysis_fault this (newPage br k) (family (fonts ! k)) = Some message"
    and others: "\<forall>i<length fonts. i \<noteq> k \<longrightarrow>
                   analysis_fault this (newPage br i) (family (fonts ! i)) = None"
  shows "\<exists>results. scanFontBatch this response br clk offset limit = Inr results \<and>
           length results = length fonts \<and>
           map fontFamily results = map family fonts \<and>
           map googleFontData results = fonts \<and>
           font_analysis.truncate (results ! k) = error_result (family (fonts ! k)) message \<and>
           (\<forall>i<length fonts. i \<noteq> k \<longrightarrow>
              error (results ! i) = None \<and> phrasePreview (results ! i) \<noteq> None \<and>
              (\<exists>score summary.
                 okenVsApostropheDifference (results ! i) = Some score \<and>
                 diacriticalSupport (results ! i) = Some summary \<and>
                 hasVisualDistinction (results ! i) = Some (score > pixelThreshold this) \<and>
                 autoApproved (results ! i) =
                   (score > pixelThreshold this \<and> allSupported summary)))"
proof -
  let ?label = "batch_label this offset limit"
  from sessions have "\<forall>j<length fonts. session_ok (newPage br (0 + j))" by simp
  from scan_loop_sessions_ok [OF this, of this clk ?label "[]"] obtain results where
    run: "scan_loop this br clk ?label 0 fonts [] = Inr results"
    and len: "length results = length fonts"
    and each: "\<forall>j<length fonts. \<exists>page. newPage br j = Inr page \<and>
              font_analysis.truncate (results ! j) = caught_analysis this page (family (fonts ! j))"
    by auto
  from run fetched have batch: "scanFontBatch this response br clk offset limit = Inr results"
    by (simp add: scanFontBatch_def)
  from scan_loop_Inr [OF run] have meta:
    "map fontFamily results = map family fonts" "map googleFontData results = fonts"
    by auto
  have faulted:
    "font_analysis.truncate (results ! k) = error_result (family (fonts ! k)) message"
  proof -
    from each k obtain page where page: "newPage br k = Inr page"
      and r: "font_analysis.truncate (results ! k) = caught_analysis this page (family (fonts ! k))"
      by blast
    from fault page have "fst (analysis_body this page (family (fonts ! k))) = Inl message"
      by (simp add: analysis_fault_def split: sum.splits)
    with r show ?thesis by (simp add: caught_analysis_def)
  qed
  have normal: "error (results ! i) = None \<and> phrasePreview (results ! i) \<noteq> None \<and>
              (\<exists>score summary.
                 okenVsApostropheDifference (results ! i) = Some score \<and>
                 diacriticalSupport (results ! i) = Some summary \<and>
                 hasVisualDistinction (results ! i) = Some (score > pixelThreshold this) \<and>
                 autoApproved (results ! i) =
                   (score > pixelThreshold this \<and> allSupported summary))"
    if "i < length fonts" "i \<noteq> k" for i
  proof -
    from each that obtain page where page: "newPage br i = Inr page"
      and r: "font_analysis.truncate (results ! i) = caught_analysis this page (family (fonts ! i))"
      by blast
    from others that have "analysis_fault this (newPage br i) (family (fonts ! i)) = None"
      by simp
    with page obtain a where
      a: "fst (analysis_body this page (family (fonts ! i))) = Inr a"
      by (cases "fst (analysis_body this page (family (fonts ! i)))")
         (simp_all add: analysis_fault_def)
    with r have "font_analysis.truncate (results ! i) = a" by (simp add: caught_analysis_def)
    with analysis_body_Inr [OF a] show ?thesis
      by (auto simp: font_analysis.truncate_def)
  qed
  from batch len meta faulted normal show ?thesis
    by (intro exI [of _ results] conjI allI impI) simp_all
qed

text \<open>
  The theorem on the fonts Lato and Roboto, where Lato's page fails to load its
  content.
\<close>

theorem scanFontBatch_absorbs_fault_witness:
  "\<exists>results.
     scanFontBatch (new_scanner None (Some 2)) (Inr [example_font ''Lato'', example_font ''Roboto''])
       (example_browser first_page_fails_to_load) example_clock 0 None = Inr results \<and>
     length results = 2 \<and>
     map fontFamily results = [''Lato'', ''Roboto''] \<and>
     font_analysis.truncate (results ! 0) = error_result ''Lato'' ''Navigation timeout'' \<and>
     error (results ! 1) = None \<and> phrasePreview (results ! 1) \<noteq> None"
proof -
  let ?sc = "new_scanner None (Some 2)"
  let ?fonts = "[example_font ''Lato'', example_font ''Roboto'']"
  let ?br = "example_browser first_page_fails_to_load"
  have fetched: "fetchGoogleFonts (Inr ?fonts) 0 (Some (or_number None (batchSize ?sc))) = Inr ?fonts"
    by code_simp
  have ok: "session_ok (newPage ?br i)" for i
    by (simp add: session_ok_def example_browser_def first_page_fails_to_load_def example_page_def)
  then have sessions: "\<forall>i<length ?fonts. session_ok (newPage ?br i)"
    by simp
  have k: "0 < length ?fonts"
    by simp
  have fault: "analysis_fault ?sc (newPage ?br 0) (family (?fonts ! 0)) = Some ''Navigation timeout''"
    by code_simp
  have second: "analysis_fault ?sc (newPage ?br 1) (family (?fonts ! 1)) = None"
    by code_simp
  have others: "\<forall>i<length ?fonts. i \<noteq> 0 \<longrightarrow> analysis_fault ?sc (newPage ?br i) (family (?fonts ! i)) = None"
  proof (intro allI impI)
    fix i :: nat
    assume "i < length ?fonts" "i \<noteq> 0"
    then have "i = 1" by simp
    with second show "analysis_fault ?sc (newPage ?br i) (family (?fonts ! i)) = None"
      by simp
  qed
  from scanFontBatch_absorbs_fault [OF fetched sessions k fault others, of example_clock]
  obtain results where
    r: "scanFontBatch ?sc (Inr ?fonts) ?br example_clock 0 None = Inr results"
      "length results = length ?fonts"
      "map fontFamily results = map family ?fonts"
      "font_analysis.truncate (results ! 0) = error_result (family (?fonts ! 0)) ''Navigation timeout''"
      "\<forall>i<length ?fonts. i \<noteq> 0 \<longrightarrow>
          error (results ! i) = None \<and> phrasePreview (results ! i) \<noteq> None \<and>
          (\<exists>score summary.
             okenVsApostropheDifference (results ! i) = Some score \<and>
             diacriticalSupport (results ! i) = Some summary \<and>
             hasVisualDistinction (results ! i) = Some (score > pixelThreshold ?sc) \<and>
             autoApproved (results ! i) = (score > pixelThreshold ?sc \<and> allSupported summary))"
    by (elim exE conjE)
  from r(5) have "error (results ! 1) = None \<and> phrasePreview (results ! 1) \<noteq> None"
    by simp
  with r(1-4) show ?thesis
    by (intro exI [of _ results]) (simp add: example_font_def)
qed

subsection \<open>Starting a scan while one is running\<close>

text \<open>
  Claim C4, as stated, fails for a request that does not reach the check or whose check
  fails. With batch 1 running, a request the scan routes' rate limiter rejects is
  answered 429, and one whose query for running batches rejects is answered 500 by the
  \<open>catch\<close> block: neither answer is the conflict, and neither carries the identifier of
  the running batch.
\<close>

theorem start_scan_not_conflict_counterexample:
  "start_scan 86400000 (clear_conditions\<lparr>scannerLimiter_rejects := True\<rparr>) empty_request
       (example_store [example_batch ''manual'' Running])
     = (TooManyRequests, example_store [example_batch ''manual'' Running], None)
   \<and> start_scan 86400000 (clear_conditions\<lparr>running_query_fault := Some ''Connection terminated''\<rparr>)
       empty_request (example_store [example_batch ''manual'' Running])
     = (ServerError, example_store [example_batch ''manual'' Running], None)
   \<and> status (example_batch ''manual'' Running) = Running"
  by (simp add: start_scan_def clear_conditions_def example_batch_def)

text \<open>
  Claim C4, amended. Whenever a new scan batch is requested while some batch of the store
  has the status \<open>running\<close>, the store is left as it was, so that no batch is created,
  and no scan is started. A request that no rate limiter rejects and whose query for
  running batches returns is answered with the conflict response carrying the
  identifier of a running batch (the first the query returns). A request a rate limiter
  rejects is answered 429, and one whose query rejects 500.
\<close>

theorem start_scan_conflict:
  assumes "b \<in> set (scan_batches db)" and "status b = Running"
  shows "\<exists>running.
           running = hd (running_batches db) \<and>
           running \<in> set (scan_batches db) \<and> status running = Running \<and>
           start_scan now conditions req db =
             ((if limiter_rejects conditions \<or> scannerLimiter_rejects conditions
               then TooManyRequests
               else if running_query_fault conditions \<noteq> None then ServerError
               else Conflict (batch_id running)),
              db, None)"
proof -
  from assms have "b \<in> set (running_batches db)"
    by (simp add: running_batches_def)
  then obtain r rs where rows: "running_batches db = r # rs"
    by (cases "running_batches db") auto
  then have "r \<in> set (running_batches db)" by simp
  then have "r \<in> set (scan_batches db) \<and> status r = Running"
    by (simp add: running_batches_def)
  with rows show ?thesis
    by (auto simp: start_scan_def Let_def split: option.splits)
qed

text \<open>
  The theorem on a store whose only batch, with identifier 1, is running, for a request
  that nothing stops on its way.
\<close>

theorem start_scan_conflict_witness:
  "start_scan 86400000 clear_conditions empty_request
       (example_store [example_batch ''manual'' Running])
     = (Conflict 1, example_store [example_batch ''manual'' Running], None)"
proof -
  have member: "example_batch ''manual'' Running
                  \<in> set (scan_batches (example_store [example_batch ''manual'' Running]))"
    by (simp add: example_store_def)
  have running: "status (example_batch ''manual'' Running) = Running"
    by (simp add: example_batch_def)
  from start_scan_conflict [OF member running, of 86400000 clear_conditions empty_request]
  show ?thesis
    by (auto simp: example_store_def example_batch_def running_batches_def clear_conditions_def)
qed

subsection \<open>The end of a batch run\<close>

lemma insert_results_eq:
  "insert_results batchId results db p a =
     (db\<lparr>scan_result_rows := scan_result_rows db @
           map (\<lambda>r. result_row r (''batch-'' @ number_text batchId)) (filter (\<lambda>r. \<not> truthy_string (error r)) results)\<rparr>,
      p + int (length (filter (\<lambda>r. \<not> truthy_string (error r)) results)),
      a + int (length (filter (\<lambda>r. \<not> truthy_string (error r) \<and> autoApproved r) results)))"
  by (induction results arbitrary: db p a)
     (simp_all add: insertScanResult_def)

lemma approved_have_no_error:
  assumes "\<forall>r \<in> set results. error r \<noteq> None \<longrightarrow> \<not> autoApproved r"
  shows "filter (\<lambda>r. \<not> truthy_string (error r) \<and> autoApproved r) results = filter autoApproved results"
  using assms
  by (intro filter_cong refl) (auto simp: truthy_string_def)

lemma runScan_Inr:
  assumes "runScan this w offset limit = Inr results"
  shows "\<exists>br. launch w = Inr br \<and>
           scanFontBatch this (catalog w) br (clock w) offset limit = Inr results"
  using assms
  by (auto simp: runScan_def Let_def split: sum.splits option.splits)

lemma scanFontBatch_Inr:
  assumes "scanFontBatch this response br clk offset limit = Inr results"
  shows "\<exists>fonts. fetchGoogleFonts response offset (Some (or_number limit (batchSize this))) = Inr fonts \<and>
           map googleFontData results = fonts \<and>
           map fontFamily results = map family fonts \<and>
           (\<forall>r \<in> set results. error r \<noteq> None \<longrightarrow> \<not> autoApproved r)"
proof (cases "fetchGoogleFonts response offset (Some (or_number limit (batchSize this)))")
  case (Inl e)
  with assms show ?thesis by (simp add: scanFontBatch_def)
next
  case (Inr fonts)
  with assms have "scan_loop this br clk (batch_label this offset limit) 0 fonts [] = Inr results"
    by (simp add: scanFontBatch_def)
  from scan_loop_Inr [OF this] Inr show ?thesis by simp
qed

text \<open>
  Claim C6, as stated, fails when a font's analysis ended in an error: the loop of
  \<open>scanFontsAsync\<close> skips a result whose \<open>error\<close> is set, neither writing nor counting
  it. The scan of Lato and Roboto with Lato's page failing to load returns two results;
  the run completes with one record written, Roboto's, and \<open>fonts_processed = 1\<close>.
\<close>

theorem scanFontsAsync_skips_errors_counterexample:
  "runScan (new_scanner (Some 50) (Some 2))
     (example_world first_page_fails_to_load [example_font ''Lato'', example_font ''Roboto''])
     0 (Some 50) = Inr example_results
   \<and> length example_results = 2
   \<and> map row_font_family
       (scan_result_rows
          (scanFontsAsync
             (example_world first_page_fails_to_load [example_font ''Lato'', example_font ''Roboto''])
             5 example_task (example_store [example_batch ''manual'' Running])))
       = [''Roboto'']
   \<and> map fonts_processed
       (scan_batches
          (scanFontsAsync
             (example_world first_page_fails_to_load [example_font ''Lato'', example_font ''Roboto''])
             5 example_task (example_store [example_batch ''manual'' Running])))
       = [Some 1]"
  by code_simp

text \<open>
  Claim C6, amended. When \<open>runScan\<close> returns its results, \<open>scanFontsAsync\<close> hands to
  \<open>insert_scan_result\<close>, in order and tagged with the batch, every result that has no
  (non-empty) \<open>error\<close>, and no other; the batch's row becomes \<open>completed\<close> with
  \<open>fonts_processed\<close> the number of results without error and \<open>fonts_approved\<close> the
  number of auto-approved results, the other rows keeping theirs. The results are those
  of the fetched fonts, in order, each with the metadata of its font.
\<close>

theorem scanFontsAsync_completed:
  assumes run: "runScan (new_scanner (Some (task_batchSize task)) (Some (task_pixelThreshold task))) w
             (task_offset task) (Some (task_batchSize task)) = Inr results"
  shows "scan_result_rows (scanFontsAsync w now task db) =
           scan_result_rows db @
             map (\<lambda>r. result_row r (''batch-'' @ number_text (task_batchId task)))
                 (filter (\<lambda>r. \<not> truthy_string (error r)) results)
       \<and> map status (scan_batches (scanFontsAsync w now task db)) =
           map (\<lambda>b. if batch_id b = task_batchId task then Completed else status b) (scan_batches db)
       \<and> map fonts_processed (scan_batches (scanFontsAsync w now task db)) =
           map (\<lambda>b. if batch_id b = task_batchId task
                     then Some (int (length (filter (\<lambda>r. \<not> truthy_string (error r)) results)))
                     else fonts_processed b) (scan_batches db)
       \<and> map fonts_approved (scan_batches (scanFontsAsync w now task db)) =
           map (\<lambda>b. if batch_id b = task_batchId task
                     then Some (int (length (filter autoApproved results)))
                     else fonts_approved b) (scan_batches db)
       \<and> (\<exists>fonts. fetchGoogleFonts (catalog w) (task_offset task) (Some (or_number (Some (task_batchSize task)) 50)) = Inr fonts \<and>
             map googleFontData results = fonts \<and>
             map fontFamily results = map family fonts)"
proof -
  let ?sc = "new_scanner (Some (task_batchSize task)) (Some (task_pixelThreshold task))"
  let ?ok = "\<lambda>r. \<not> truthy_string (error r)"
  from runScan_Inr [OF run] obtain br where
    "scanFontBatch ?sc (catalog w) br (clock w) (task_offset task) (Some (task_batchSize task)) = Inr results"
    by (elim exE conjE)
  from scanFontBatch_Inr [OF this] obtain fonts where
    fonts: "fetchGoogleFonts (catalog w) (task_offset task)
              (Some (or_number (Some (task_batchSize task)) (batchSize ?sc))) = Inr fonts"
      "map googleFontData results = fonts"
      "map fontFamily results = map family fonts"
      "\<forall>r \<in> set results. error r \<noteq> None \<longrightarrow> \<not> autoApproved r"
    by (elim exE conjE)
  have approved: "filter (\<lambda>r. ?ok r \<and> autoApproved r) results = filter autoApproved results"
    using fonts(4) by (rule approved_have_no_error)
  have async: "scanFontsAsync w now task db =
      mark_completed now (task_batchId task) (int (length (filter ?ok results)))
        (int (length (filter autoApproved results)))
        (db\<lparr>scan_result_rows := scan_result_rows db @
              map (\<lambda>r. result_row r (''batch-'' @ number_text (task_batchId task))) (filter ?ok results)\<rparr>)"
    using run by (simp add: scanFontsAsync_def insert_results_eq approved)
  have rows: "scan_result_rows (scanFontsAsync w now task db) =
           scan_result_rows db @ map (\<lambda>r. result_row r (''batch-'' @ number_text (task_batchId task))) (filter ?ok results)"
    by (simp add: async mark_completed_def)
  have st: "map status (scan_batches (scanFontsAsync w now task db)) =
           map (\<lambda>b. if batch_id b = task_batchId task then Completed else status b) (scan_batches db)"
    by (simp add: async mark_completed_def comp_def if_distrib [of status] cong: if_cong)
  have fp: "map fonts_processed (scan_batches (scanFontsAsync w now task db)) =
           map (\<lambda>b. if batch_id b = task_batchId task
                     then Some (int (length (filter ?ok results)))
                     else fonts_processed b) (scan_batches db)"
    by (simp add: async mark_completed_def comp_def if_distrib [of fonts_processed] cong: if_cong)
  have fa: "map fonts_approved (scan_batches (scanFontsAsync w now task db)) =
           map (\<lambda>b. if batch_id b = task_batchId task
                     then Some (int (length (filter autoApproved results)))
                     else fonts_approved b) (scan_batches db)"
    by (simp add: async mark_completed_def comp_def if_distrib [of fonts_approved] cong: if_cong)
  have meta: "\<exists>fonts. fetchGoogleFonts (catalog w) (task_offset task) (Some (or_number (Some (task_batchSize task)) 50)) = Inr fonts \<and>
             map googleFontData results = fonts \<and>
             map fontFamily results = map family fonts"
    using fonts(1-3) by (intro exI [of _ fonts]) (simp add: new_scanner_def or_number_def split: if_splits)
  from rows st fp fa meta show ?thesis
    by (intro conjI)
qed

text \<open>
  The theorem on the scan of Lato and Roboto with Lato's page failing to load, for the
  running batch 1.
\<close>

theorem scanFontsAsync_completed_witness:
  "scan_result_rows
     (scanFontsAsync
        (example_world first_page_fails_to_load [example_font ''Lato'', example_font ''Roboto''])
        5 example_task (example_store [example_batch ''manual'' Running]))
     = [result_row (example_results ! 1) ''batch-1'']
   \<and> map status
       (scan_batches
          (scanFontsAsync
             (example_world first_page_fails_to_load [example_font ''Lato'', example_font ''Roboto''])
             5 example_task (example_store [example_batch ''manual'' Running])))
       = [Completed]
   \<and> map fonts_processed
       (scan_batches
          (scanFontsAsync
             (example_world first_page_fails_to_load [example_font ''Lato'', example_font ''Roboto''])
             5 example_task (example_store [example_batch ''manual'' Running])))
       = [Some 1]
   \<and> map fonts_approved
       (scan_batches
          (scanFontsAsync
             (example_world first_page_fails_to_load [example_font ''Lato'', example_font ''Roboto''])
             5 example_task (example_store [example_batch ''manual'' Running])))
       = [Some 1]"
proof -
  let ?w = "example_world first_page_fails_to_load [example_font ''Lato'', example_font ''Roboto'']"
  have run: "runScan (new_scanner (Some (task_batchSize example_task))
                (Some (task_pixelThreshold example_task)))
              ?w (task_offset example_task) (Some (task_batchSize example_task)) = Inr example_results"
    by code_simp
  have ok: "filter (\<lambda>r. \<not> truthy_string (error r)) example_results = [example_results ! 1]"
    by (simp add: example_results_def tag_result_fields error_result_def truthy_string_def
          example_analysis_def)
  have approved: "filter autoApproved example_results = [example_results ! 1]"
    by (simp add: example_results_def tag_result_fields error_result_def example_analysis_def)
  have label: "number_text 1 = ''1''"
    by code_simp
  have task: "task_batchId example_task = 1"
    by (simp add: example_task_def)
  from scanFontsAsync_completed [OF run, of 5 "example_store [example_batch ''manual'' Running]"]
  show ?thesis
    by (simp add: ok approved label task example_store_def example_batch_def)
qed

subsection \<open>The scheduled trigger\<close>

text \<open>
  The callback never changes the store: it reads two queries and prints.
\<close>

lemma scheduled_scan_store: "fst (scheduled_scan now db) = db"
  by (simp add: scheduled_scan_def Let_def)

text \<open>
  Claim C8. The store holds one batch, an incremental scan started at time 0 and
  completed; the trigger fires 15 days later. The last incremental scan is 14 days old
  or more and no batch is running, so the claim has a new incremental batch created. The
  callback prints that it starts the scan and returns the store unchanged: no batch is
  created.
\<close>

theorem scheduled_scan_creates_no_batch:
  "last_incremental_start (example_store [example_batch ''incremental'' Completed]) = Some 0
   \<and> running_batches (example_store [example_batch ''incremental'' Completed]) = []
   \<and> scheduled_scan (15 * 86400000) (example_store [example_batch ''incremental'' Completed])
       = (example_store [example_batch ''incremental'' Completed],
          [clock_face @ '' Starting scheduled incremental scan...'',
           ''Starting incremental scan for new fonts...''])"
  by (simp add: scheduled_scan_def last_incremental_start_def running_batches_def
        example_store_def example_batch_def)

end
